theory Spec2Isabelle
  imports Main "HOL-Library.Sublist"
begin

section \<open>The JSON fetch client of plume-http (JsonFetchClient.ts)\<close>

text \<open>
  A shallow embedding of \<^verbatim>\<open>src/templates/admin/src/lib/plume-http/client/JsonFetchClient.ts\<close>:
  the three exported functions \<^verbatim>\<open>jsonContentTypeValidator\<close>, \<^verbatim>\<open>defaultJsonErrorMapper\<close> and
  \<^verbatim>\<open>toJsonResponse\<close>, and the client \<^verbatim>\<open>defaultJsonFetchClient\<close> that chains them.

  What the code does beyond returning a value is explicit:
  \<^item> a thrown exception or a rejected promise is \<open>Inl e\<close> of a sum type, a returned value
    or a fulfilled promise is \<open>Inr v\<close>;
  \<^item> \<^verbatim>\<open>undefined\<close> is \<open>None\<close>;
  \<^item> the calls of \<^verbatim>\<open>logger.error\<close> and the reading of the response body act on a
    \<open>world\<close> that every function takes and returns.
\<close>

subsection \<open>Values\<close>

text \<open>
  What \<^verbatim>\<open>Response.json()\<close> can yield: the values of JSON. No function of the file looks
  into a number, so the representation \<open>'n\<close> of numbers is left open. An object is the
  list of its own properties (their names are distinct in a parsed object, and
  \<open>map_of\<close> reads one).
\<close>

datatype 'n json =
  JNull
  | JBool bool
  | JNumber 'n
  | JString string
  | JArray "'n json list"
  | JObject "(string \<times> 'n json) list"

text \<open>What the code can throw, or a promise can be rejected with.\<close>

datatype js_error = SyntaxError | TypeError | OtherError string

text \<open>
  The \<^verbatim>\<open>Response\<close> of the Fetch interface, as far as the file reads it: \<^verbatim>\<open>status\<close>,
  \<^verbatim>\<open>headers\<close> (names in lower case, as \<^verbatim>\<open>Headers\<close> compares them) and what the promise
  of \<^verbatim>\<open>response.json()\<close> settles to: \<open>Inr j\<close> when the body is read and parses to \<open>j\<close>,
  \<open>Inl e\<close> when reading or parsing fails.
\<close>

record 'n Response =
  status :: nat
  headers :: "(string \<times> string) list"
  body_json :: "js_error + 'n json"

text \<open>\<^verbatim>\<open>response.ok\<close>: the Fetch interface sets it for a status from 200 to 299.\<close>

definition ok :: "'n Response \<Rightarrow> bool" where
  "ok r = (200 \<le> status r \<and> status r \<le> 299)"

text \<open>\<^verbatim>\<open>headers.get(name)\<close>: the value, or \<^verbatim>\<open>null\<close> (here \<open>None\<close>) for an absent header.\<close>

definition headers_get :: "(string \<times> string) list \<Rightarrow> string \<Rightarrow> string option" where
  "headers_get hs name = map_of hs name"

text \<open>
  \<^verbatim>\<open>HttpResponse<T> = { error?: HttpError; response?: T }\<close>: a field that is not set is
  \<open>None\<close>. At run time the \<^verbatim>\<open>error\<close> field holds either \<^verbatim>\<open>genericError\<close> or the parsed body,
  so both fields hold JSON values.
\<close>

record 'n HttpResponse =
  response :: "'n json option"
  error :: "'n json option"

subsection \<open>The world: the logger and the body\<close>

text \<open>
  \<^verbatim>\<open>logger.error(message, argument)\<close> is called for its effect only. The logger is a
  collaborator of the file: a function \<open>lg\<close> from the message and the argument to a change of
  its own state \<open>'l\<close> (the sink). \<open>bodyReads\<close> counts the calls of \<^verbatim>\<open>response.json()\<close>.
\<close>

datatype 'n log_arg = ArgResponse "'n Response" | ArgError js_error

type_synonym ('n, 'l) logger = "string \<Rightarrow> 'n log_arg \<Rightarrow> 'l \<Rightarrow> 'l"

record 'l world =
  sink :: 'l
  bodyReads :: nat

definition logger_error :: "('n, 'l) logger \<Rightarrow> string \<Rightarrow> 'n log_arg \<Rightarrow> 'l world \<Rightarrow> 'l world" where
  "logger_error lg msg a w = w\<lparr>sink := lg msg a (sink w)\<rparr>"

text \<open>Two loggers: one that keeps every call, and one that does nothing.\<close>

definition recording :: "('n, (string \<times> 'n log_arg) list) logger" where
  "recording msg a l = l @ [(msg, a)]"

definition silent :: "('n, 'l) logger" where
  "silent msg a l = l"

subsection \<open>Promises\<close>

text \<open>
  A promise, or a call that may throw, run in a world: it settles to a rejection \<open>Inl e\<close>
  or a value \<open>Inr v\<close>. \<open>promise_then\<close> and \<open>promise_catch\<close> are \<^verbatim>\<open>.then(f)\<close> and \<^verbatim>\<open>.catch(g)\<close>: a callback
  that throws rejects the promise it builds.
\<close>

type_synonym ('a, 'l) promise = "'l world \<Rightarrow> (js_error + 'a) \<times> 'l world"

definition promise_then :: "('a, 'l) promise \<Rightarrow> ('a \<Rightarrow> ('b, 'l) promise) \<Rightarrow> ('b, 'l) promise" where
  "promise_then p f w = (case p w of (Inl e, w') \<Rightarrow> (Inl e, w') | (Inr a, w') \<Rightarrow> f a w')"

definition promise_catch :: "('a, 'l) promise \<Rightarrow> (js_error \<Rightarrow> ('a, 'l) promise) \<Rightarrow> ('a, 'l) promise" where
  "promise_catch p g w = (case p w of (Inl e, w') \<Rightarrow> g e w' | (Inr a, w') \<Rightarrow> (Inr a, w'))"

text \<open>\<^verbatim>\<open>response.json()\<close>: reads the body and settles to \<open>body_json\<close>.\<close>

definition response_json :: "'n Response \<Rightarrow> ('n json, 'l) promise" where
  "response_json r w = (body_json r, w\<lparr>bodyReads := Suc (bodyReads w)\<rparr>)"

subsection \<open>String search\<close>

text \<open>
  \<^verbatim>\<open>s.indexOf(pat)\<close>: the first position at which \<open>pat\<close> stands in \<open>s\<close>, or \<open>-1\<close>. It
  compares the characters as they are.
\<close>

fun indexOf_from :: "'a list \<Rightarrow> 'a list \<Rightarrow> nat \<Rightarrow> int" where
  "indexOf_from pat [] i = (if prefix pat [] then int i else - 1)"
| "indexOf_from pat (c # cs) i =
     (if prefix pat (c # cs) then int i else indexOf_from pat cs (Suc i))"

definition indexOf :: "string \<Rightarrow> string \<Rightarrow> int" where
  "indexOf s pat = indexOf_from pat s 0"

subsection \<open>The parts of HttpResponse.ts the file uses\<close>

text \<open>
  \<^verbatim>\<open>genericError\<close> is a constant of \<^verbatim>\<open>HttpResponse.ts\<close>, which is not among the sources:
  every function below takes it as the parameter \<open>ge\<close>.
\<close>

text \<open>
  Modelled from the spec: \<^verbatim>\<open>toErrorResponsePromise\<close> of \<^verbatim>\<open>HttpResponse.ts\<close>, which is not
  among the sources. The spec has the content-type validator return "a generic-error
  Result immediately", and a Result is \<^verbatim>\<open>{error: E}\<close>: a fulfilled promise of the
  Result whose \<^verbatim>\<open>error\<close> field is the argument.
\<close>

definition toErrorResponsePromise :: "'n json \<Rightarrow> js_error + 'n HttpResponse" where
  "toErrorResponsePromise e = Inr \<lparr>response = None, error = Some e\<rparr>"

subsection \<open>The handlers\<close>

text \<open>
  A \<^verbatim>\<open>FetchResponseHandler\<close> returns \<^verbatim>\<open>undefined\<close> (\<open>None\<close>) or a promise of a Result
  (\<open>Some\<close> of what the promise settles to).
\<close>

type_synonym ('n, 'l) FetchResponseHandler =
  "'n Response \<Rightarrow> 'l world \<Rightarrow> (js_error + 'n HttpResponse) option \<times> 'l world"

type_synonym ('n, 'l) JsonErrorMapper =
  "'n Response \<Rightarrow> 'n json \<Rightarrow> ('n HttpResponse, 'l) promise"

text \<open>
  \<^verbatim>\<open>jsonContentTypeValidator(response, jsonContentType = 'application/json')\<close>: the second
  argument is optional, \<open>None\<close> when the caller gives none.
\<close>

definition jsonContentTypeValidator ::
  "('n, 'l) logger \<Rightarrow> 'n json \<Rightarrow> 'n Response \<Rightarrow> string option
    \<Rightarrow> 'l world \<Rightarrow> (js_error + 'n HttpResponse) option \<times> 'l world" where
  "jsonContentTypeValidator lg ge r arg w =
     (let jsonContentType = (case arg of None \<Rightarrow> ''application/json'' | Some s \<Rightarrow> s);
          contentType = headers_get (headers r) ''content-type''
      in case contentType of
           None \<Rightarrow>
             (Some (toErrorResponsePromise ge),
              logger_error lg ''Response type is not JSON'' (ArgResponse r) w)
         | Some ct \<Rightarrow>
             if indexOf ct jsonContentType = - 1
             then (Some (toErrorResponsePromise ge),
                   logger_error lg ''Response type is not JSON'' (ArgResponse r) w)
             else (None, w))"

text \<open>
  \<^verbatim>\<open>json.errorCode\<close> on a parsed body: reading a property of \<^verbatim>\<open>null\<close> throws a
  \<^verbatim>\<open>TypeError\<close>; an object gives its own property, or \<^verbatim>\<open>undefined\<close>; a boolean, a number,
  a string and an array have no property of that name.
\<close>

fun get_errorCode :: "'n json \<Rightarrow> js_error + 'n json option" where
  "get_errorCode JNull = Inl TypeError"
| "get_errorCode (JObject ps) = Inr (map_of ps ''errorCode'')"
| "get_errorCode (JBool b) = Inr None"
| "get_errorCode (JNumber n) = Inr None"
| "get_errorCode (JString s) = Inr None"
| "get_errorCode (JArray xs) = Inr None"

definition defaultJsonErrorMapper ::
  "('n, 'l) logger \<Rightarrow> 'n json \<Rightarrow> 'n Response \<Rightarrow> 'n json \<Rightarrow> ('n HttpResponse, 'l) promise" where
  "defaultJsonErrorMapper lg ge r j w =
     (case get_errorCode j of
        Inl e \<Rightarrow> (Inl e, w)
      | Inr None \<Rightarrow>
          (Inr \<lparr>response = None, error = Some ge\<rparr>,
           logger_error lg ''Unrecognized JSON error'' (ArgResponse r) w)
      | Inr (Some c) \<Rightarrow> (Inr \<lparr>response = None, error = Some j\<rparr>, w))"

text \<open>
  \<^verbatim>\<open>toJsonResponse(response, jsonErrorMapper = defaultJsonErrorMapper)\<close>: the second
  argument is optional. The promise it returns is \<^verbatim>\<open>response.json().then(...).catch(...)\<close>.
\<close>

definition toJsonResponse ::
  "('n, 'l) logger \<Rightarrow> 'n json \<Rightarrow> 'n Response \<Rightarrow> ('n, 'l) JsonErrorMapper option
    \<Rightarrow> 'l world \<Rightarrow> (js_error + 'n HttpResponse) option \<times> 'l world" where
  "toJsonResponse lg ge r arg w =
     (let jsonErrorMapper = (case arg of None \<Rightarrow> defaultJsonErrorMapper lg ge | Some m \<Rightarrow> m);
          p = promise_catch
                (promise_then (response_json r)
                   (\<lambda>j w1. if ok r then (Inr \<lparr>response = Some j, error = None\<rparr>, w1)
                            else jsonErrorMapper r j w1))
                (\<lambda>e w2. (Inr \<lparr>response = None, error = Some ge\<rparr>,
                          logger_error lg ''Cannot parse JSON'' (ArgError e) w2))
      in case p w of (res, w') \<Rightarrow> (Some res, w'))"

subsection \<open>The client\<close>

text \<open>
  Modelled from the spec: \<^verbatim>\<open>fetchClient\<close> of \<^verbatim>\<open>FetchClient.ts\<close>, which is not among the
  sources. The spec (4.1) has it go through the handlers in order, stop at the first one
  that returns a value, which is the final Result, and surface a generic error when every
  handler returns \<^verbatim>\<open>undefined\<close>. The request and the transport are outside the model:
  \<open>resolve\<close> starts from the response the transport gave.
\<close>

fun resolve ::
  "'n json \<Rightarrow> ('n, 'l) FetchResponseHandler list \<Rightarrow> 'n Response
    \<Rightarrow> 'l world \<Rightarrow> (js_error + 'n HttpResponse) \<times> 'l world" where
  "resolve ge [] r w = (toErrorResponsePromise ge, w)"
| "resolve ge (h # hs) r w =
     (case h r w of (None, w') \<Rightarrow> resolve ge hs r w' | (Some v, w') \<Rightarrow> (v, w'))"

text \<open>
  \<^verbatim>\<open>defaultJsonFetchClient\<close>: \<^verbatim>\<open>fetchClient\<close> with the three handlers, each called with the
  response alone. \<^verbatim>\<open>validateBasicStatusCodes\<close> (\<^verbatim>\<open>FetchStatusValidators.ts\<close>) is not among
  the sources and the spec leaves its thresholds open: it is a parameter.
\<close>

definition defaultJsonFetchClient ::
  "('n, 'l) logger \<Rightarrow> 'n json \<Rightarrow> ('n, 'l) FetchResponseHandler \<Rightarrow> 'n Response
    \<Rightarrow> 'l world \<Rightarrow> (js_error + 'n HttpResponse) \<times> 'l world" where
  "defaultJsonFetchClient lg ge validateBasicStatusCodes r w =
     resolve ge
       [validateBasicStatusCodes,
        (\<lambda>r. jsonContentTypeValidator lg ge r None),
        (\<lambda>r. toJsonResponse lg ge r None)] r w"

subsection \<open>The Result invariant\<close>

text \<open>Exactly one of the two fields of a Result is set.\<close>

definition exactly_one :: "'n HttpResponse \<Rightarrow> bool" where
  "exactly_one res = ((response res = None) \<noteq> (error res = None))"

section \<open>Properties\<close>

subsection \<open>Helper facts\<close>

lemma logger_error_silent: "logger_error silent msg a w = w"
  by (simp add: logger_error_def silent_def)

lemma bodyReads_logger_error: "bodyReads (logger_error lg msg a w) = bodyReads w"
  by (simp add: logger_error_def)

text \<open>\<open>indexOf\<close> answers \<open>-1\<close> exactly when the pattern stands nowhere in the string.\<close>

lemma indexOf_from_sublist: "indexOf_from pat s i = - 1 \<longleftrightarrow> \<not> sublist pat s"
  by (induction s arbitrary: i) (auto simp: sublist_Cons_right)

lemma indexOf_sublist: "indexOf s pat = - 1 \<longleftrightarrow> \<not> sublist pat s"
  by (simp add: indexOf_def indexOf_from_sublist)

lemma indexOf_examples:
  "indexOf ''application/vnd.app.v1+json'' ''json'' = 23"
  "indexOf ''text/plain'' ''json'' = - 1"
  "indexOf ''abc'' '''' = 0"
  "indexOf '''' ''a'' = - 1"
  by (simp_all add: indexOf_def)

lemmas toJson_defs = toJsonResponse_def promise_catch_def promise_then_def response_json_def

text \<open>The promise of \<open>toJsonResponse\<close> is always fulfilled, whatever the mapper does.\<close>

lemma toJsonResponse_verdict:
  "\<exists>res w'. toJsonResponse lg ge r arg w = (Some (Inr res), w')"
  by (cases "body_json r"; cases "ok r"; cases arg)
     (auto simp: toJson_defs split: sum.splits prod.splits)

text \<open>
  On its own the default mapper throws on the body \<^verbatim>\<open>null\<close>: \<^verbatim>\<open>json.errorCode\<close> is a
  property read of \<^verbatim>\<open>null\<close>. Inside \<open>toJsonResponse\<close> the \<^verbatim>\<open>catch\<close> callback takes it.
\<close>

lemma defaultJsonErrorMapper_null_throws:
  "defaultJsonErrorMapper lg ge r JNull w = (Inl TypeError, w)"
  by (simp add: defaultJsonErrorMapper_def)

subsection \<open>The JSON resolver\<close>

text \<open>
  C1. For a response whose status is in the success range (\<^verbatim>\<open>response.ok\<close>) and whose
  body parses to \<open>j\<close>, \<open>toJsonResponse\<close> yields \<^verbatim>\<open>{response: j}\<close>, with any error mapper;
  the body is read once and nothing is logged.
\<close>

theorem toJsonResponse_success:
  assumes "ok r" and "body_json r = Inr j"
  shows "toJsonResponse lg ge r arg w =
    (Some (Inr \<lparr>response = Some j, error = None\<rparr>), w\<lparr>bodyReads := Suc (bodyReads w)\<rparr>)"
  using assms by (simp add: toJson_defs)

text \<open>The scenario of the spec: status 200, body \<^verbatim>\<open>{"id":1}\<close>.\<close>

theorem toJsonResponse_success_witness:
  "toJsonResponse recording (JObject [(''errorCode'', JString ''INTERNAL_ERROR'')])
     \<lparr>status = 200, headers = [(''content-type'', ''application/json'')],
      body_json = Inr (JObject [(''id'', JNumber (1::int))])\<rparr>
     None \<lparr>sink = [], bodyReads = 0\<rparr>
   = (Some (Inr \<lparr>response = Some (JObject [(''id'', JNumber 1)]), error = None\<rparr>),
      \<lparr>sink = [], bodyReads = 1\<rparr>)"
  using toJsonResponse_success[of
     "\<lparr>status = 200, headers = [(''content-type'', ''application/json'')],
      body_json = Inr (JObject [(''id'', JNumber (1::int))])\<rparr>"
     "JObject [(''id'', JNumber (1::int))]" recording
     "JObject [(''errorCode'', JString ''INTERNAL_ERROR'')]" None "\<lparr>sink = [], bodyReads = 0\<rparr>"]
  by (simp add: ok_def)

text \<open>
  C2. For a response whose status is not in the success range and whose body parses to
  \<open>j\<close>, under the default error mapper: when \<open>j\<close> has an \<^verbatim>\<open>errorCode\<close> that is not
  \<^verbatim>\<open>undefined\<close>, the result is \<^verbatim>\<open>{error: j}\<close>; in every other case it is
  \<^verbatim>\<open>{error: genericError}\<close>. The other cases are an object without the property, a
  boolean, a number, a string or an array (the mapper answers the generic error), and
  \<^verbatim>\<open>null\<close> (the mapper throws and the \<^verbatim>\<open>catch\<close> callback answers it).
\<close>

theorem toJsonResponse_failure_default:
  assumes "\<not> ok r" and "body_json r = Inr j"
  shows "(\<forall>c. get_errorCode j = Inr (Some c) \<longrightarrow>
            fst (toJsonResponse lg ge r None w) = Some (Inr \<lparr>response = None, error = Some j\<rparr>))
       \<and> ((\<forall>c. get_errorCode j \<noteq> Inr (Some c)) \<longrightarrow>
            fst (toJsonResponse lg ge r None w) = Some (Inr \<lparr>response = None, error = Some ge\<rparr>))"
  using assms
  by (auto simp: toJson_defs defaultJsonErrorMapper_def split: sum.splits option.splits)

text \<open>
  The scenarios of the spec: status 404 with \<^verbatim>\<open>{"errorCode":"NOT_FOUND"}\<close>, and status 500
  with \<^verbatim>\<open>{"message":"oops"}\<close>.
\<close>

theorem toJsonResponse_failure_default_witness:
  "fst (toJsonResponse recording (JObject [(''errorCode'', JString ''INTERNAL_ERROR'')])
     \<lparr>status = 404, headers = [(''content-type'', ''application/json'')],
      body_json = Inr (JObject [(''errorCode'', JString ''NOT_FOUND'')] :: int json)\<rparr>
     None \<lparr>sink = [], bodyReads = 0\<rparr>)
   = Some (Inr \<lparr>response = None, error = Some (JObject [(''errorCode'', JString ''NOT_FOUND'')])\<rparr>)
  \<and> fst (toJsonResponse recording (JObject [(''errorCode'', JString ''INTERNAL_ERROR'')])
     \<lparr>status = 500, headers = [(''content-type'', ''application/json'')],
      body_json = Inr (JObject [(''message'', JString ''oops'')] :: int json)\<rparr>
     None \<lparr>sink = [], bodyReads = 0\<rparr>)
   = Some (Inr \<lparr>response = None, error = Some (JObject [(''errorCode'', JString ''INTERNAL_ERROR'')])\<rparr>)"
  using toJsonResponse_failure_default[of
     "\<lparr>status = 404, headers = [(''content-type'', ''application/json'')],
      body_json = Inr (JObject [(''errorCode'', JString ''NOT_FOUND'')] :: int json)\<rparr>"
     "JObject [(''errorCode'', JString ''NOT_FOUND'')]" recording
     "JObject [(''errorCode'', JString ''INTERNAL_ERROR'')]" "\<lparr>sink = [], bodyReads = 0\<rparr>"]
    toJsonResponse_failure_default[of
     "\<lparr>status = 500, headers = [(''content-type'', ''application/json'')],
      body_json = Inr (JObject [(''message'', JString ''oops'')] :: int json)\<rparr>"
     "JObject [(''message'', JString ''oops'')]" recording
     "JObject [(''errorCode'', JString ''INTERNAL_ERROR'')]" "\<lparr>sink = [], bodyReads = 0\<rparr>"]
  by (simp add: ok_def)

text \<open>
  C3. For a response whose body cannot be read or parsed (\<^verbatim>\<open>response.json()\<close> is
  rejected with \<open>e\<close>), \<open>toJsonResponse\<close> yields \<^verbatim>\<open>{error: genericError}\<close>, whatever the
  status and the mapper; the error is logged.
\<close>

theorem toJsonResponse_unparsable:
  assumes "body_json r = Inl e"
  shows "toJsonResponse lg ge r arg w =
    (Some (Inr \<lparr>response = None, error = Some ge\<rparr>),
     logger_error lg ''Cannot parse JSON'' (ArgError e) (w\<lparr>bodyReads := Suc (bodyReads w)\<rparr>))"
  using assms by (simp add: toJson_defs)

text \<open>At status 200 and at status 500.\<close>

theorem toJsonResponse_unparsable_witness:
  "toJsonResponse recording (JObject [(''errorCode'', JString ''INTERNAL_ERROR'')])
     \<lparr>status = 200, headers = [(''content-type'', ''application/json'')],
      body_json = (Inl SyntaxError :: js_error + int json)\<rparr>
     None \<lparr>sink = [], bodyReads = 0\<rparr>
   = (Some (Inr \<lparr>response = None, error = Some (JObject [(''errorCode'', JString ''INTERNAL_ERROR'')])\<rparr>),
      \<lparr>sink = [(''Cannot parse JSON'', ArgError SyntaxError)], bodyReads = 1\<rparr>)
  \<and> toJsonResponse recording (JObject [(''errorCode'', JString ''INTERNAL_ERROR'')])
     \<lparr>status = 500, headers = [(''content-type'', ''application/json'')],
      body_json = (Inl SyntaxError :: js_error + int json)\<rparr>
     None \<lparr>sink = [], bodyReads = 0\<rparr>
   = (Some (Inr \<lparr>response = None, error = Some (JObject [(''errorCode'', JString ''INTERNAL_ERROR'')])\<rparr>),
      \<lparr>sink = [(''Cannot parse JSON'', ArgError SyntaxError)], bodyReads = 1\<rparr>)"
  using toJsonResponse_unparsable[of
     "\<lparr>status = 200, headers = [(''content-type'', ''application/json'')],
      body_json = (Inl SyntaxError :: js_error + int json)\<rparr>" SyntaxError recording
     "JObject [(''errorCode'', JString ''INTERNAL_ERROR'')]" None "\<lparr>sink = [], bodyReads = 0\<rparr>"]
    toJsonResponse_unparsable[of
     "\<lparr>status = 500, headers = [(''content-type'', ''application/json'')],
      body_json = (Inl SyntaxError :: js_error + int json)\<rparr>" SyntaxError recording
     "JObject [(''errorCode'', JString ''INTERNAL_ERROR'')]" None "\<lparr>sink = [], bodyReads = 0\<rparr>"]
  by (simp add: logger_error_def recording_def)

subsection \<open>The content-type validator\<close>

text \<open>
  C4. When the \<^verbatim>\<open>content-type\<close> header is absent, or does not contain the expected
  substring (\<^verbatim>\<open>application/json\<close> when the caller gives none), \<open>jsonContentTypeValidator\<close>
  returns the Result \<^verbatim>\<open>{error: genericError}\<close> (and logs the response); when the header
  contains the substring it returns \<^verbatim>\<open>undefined\<close> and changes nothing.
\<close>

theorem jsonContentTypeValidator_verdict:
  "((headers_get (headers r) ''content-type'' = None
      \<or> (\<exists>ct. headers_get (headers r) ''content-type'' = Some ct
            \<and> \<not> sublist (case arg of None \<Rightarrow> ''application/json'' | Some s \<Rightarrow> s) ct))
     \<longrightarrow> jsonContentTypeValidator lg ge r arg w =
          (Some (Inr \<lparr>response = None, error = Some ge\<rparr>),
           logger_error lg ''Response type is not JSON'' (ArgResponse r) w))
   \<and> ((\<exists>ct. headers_get (headers r) ''content-type'' = Some ct
            \<and> sublist (case arg of None \<Rightarrow> ''application/json'' | Some s \<Rightarrow> s) ct)
     \<longrightarrow> jsonContentTypeValidator lg ge r arg w = (None, w))"
  by (auto simp: jsonContentTypeValidator_def toErrorResponsePromise_def indexOf_sublist
        simp del: One_nat_def split: option.splits)

text \<open>
  With the default substring: the header \<^verbatim>\<open>text/html\<close>, no header, and the header
  \<^verbatim>\<open>application/json; charset=utf-8\<close>.
\<close>

theorem jsonContentTypeValidator_verdict_witness:
  "jsonContentTypeValidator recording (JObject [(''errorCode'', JString ''INTERNAL_ERROR'')])
     \<lparr>status = 200, headers = [(''content-type'', ''text/html'')],
      body_json = Inr (JNull :: int json)\<rparr>
     None \<lparr>sink = [], bodyReads = 0\<rparr>
   = (Some (Inr \<lparr>response = None, error = Some (JObject [(''errorCode'', JString ''INTERNAL_ERROR'')])\<rparr>),
      \<lparr>sink = [(''Response type is not JSON'',
                ArgResponse \<lparr>status = 200, headers = [(''content-type'', ''text/html'')],
                  body_json = Inr JNull\<rparr>)], bodyReads = 0\<rparr>)
  \<and> jsonContentTypeValidator recording (JObject [(''errorCode'', JString ''INTERNAL_ERROR'')])
     \<lparr>status = 200, headers = [],
      body_json = Inr (JNull :: int json)\<rparr>
     None \<lparr>sink = [], bodyReads = 0\<rparr>
   = (Some (Inr \<lparr>response = None, error = Some (JObject [(''errorCode'', JString ''INTERNAL_ERROR'')])\<rparr>),
      \<lparr>sink = [(''Response type is not JSON'',
                ArgResponse \<lparr>status = 200, headers = [],
                  body_json = Inr JNull\<rparr>)], bodyReads = 0\<rparr>)
  \<and> jsonContentTypeValidator recording (JObject [(''errorCode'', JString ''INTERNAL_ERROR'')])
     \<lparr>status = 200, headers = [(''content-type'', ''application/json; charset=utf-8'')],
      body_json = Inr (JNull :: int json)\<rparr>
     None \<lparr>sink = [], bodyReads = 0\<rparr>
   = (None, \<lparr>sink = [], bodyReads = 0\<rparr>)"
  using jsonContentTypeValidator_verdict[of
     "\<lparr>status = 200, headers = [(''content-type'', ''text/html'')],
      body_json = Inr (JNull :: int json)\<rparr>" None recording
     "JObject [(''errorCode'', JString ''INTERNAL_ERROR'')]" "\<lparr>sink = [], bodyReads = 0\<rparr>"]
   jsonContentTypeValidator_verdict[of
     "\<lparr>status = 200, headers = [],
      body_json = Inr (JNull :: int json)\<rparr>" None recording
     "JObject [(''errorCode'', JString ''INTERNAL_ERROR'')]" "\<lparr>sink = [], bodyReads = 0\<rparr>"]
   jsonContentTypeValidator_verdict[of
     "\<lparr>status = 200, headers = [(''content-type'', ''application/json; charset=utf-8'')],
      body_json = Inr (JNull :: int json)\<rparr>" None recording
     "JObject [(''errorCode'', JString ''INTERNAL_ERROR'')]" "\<lparr>sink = [], bodyReads = 0\<rparr>"]
  by (simp add: headers_get_def sublist_code logger_error_def recording_def)

text \<open>
  C7. The match is a containment of the exact characters: with the expected substring
  \<^verbatim>\<open>json\<close>, the header \<^verbatim>\<open>application/vnd.app.v1+json\<close> passes and the header
  \<^verbatim>\<open>text/plain\<close> fails; so does \<^verbatim>\<open>application/vnd.app.v1+JSON\<close>, which differs in case
  only. In general the validator passes exactly when the header is the pattern with
  something before and something after it.
\<close>

theorem jsonContentTypeValidator_substring:
  "(headers_get (headers r) ''content-type'' = Some ''application/vnd.app.v1+json'' \<longrightarrow>
      jsonContentTypeValidator lg ge r (Some ''json'') w = (None, w))
 \<and> (headers_get (headers r) ''content-type'' = Some ''text/plain'' \<longrightarrow>
      jsonContentTypeValidator lg ge r (Some ''json'') w =
        (Some (Inr \<lparr>response = None, error = Some ge\<rparr>),
         logger_error lg ''Response type is not JSON'' (ArgResponse r) w))
 \<and> (headers_get (headers r) ''content-type'' = Some ''application/vnd.app.v1+JSON'' \<longrightarrow>
      jsonContentTypeValidator lg ge r (Some ''json'') w =
        (Some (Inr \<lparr>response = None, error = Some ge\<rparr>),
         logger_error lg ''Response type is not JSON'' (ArgResponse r) w))
 \<and> ((fst (jsonContentTypeValidator lg ge r (Some pat) w) = None) =
      (\<exists>ct ps ss. headers_get (headers r) ''content-type'' = Some ct \<and> ct = ps @ pat @ ss))"
proof (intro conjI impI)
  assume "headers_get (headers r) ''content-type'' = Some ''application/vnd.app.v1+json''"
  then show "jsonContentTypeValidator lg ge r (Some ''json'') w = (None, w)"
    by (simp add: jsonContentTypeValidator_def indexOf_def)
next
  assume "headers_get (headers r) ''content-type'' = Some ''text/plain''"
  then show "jsonContentTypeValidator lg ge r (Some ''json'') w =
        (Some (Inr \<lparr>response = None, error = Some ge\<rparr>),
         logger_error lg ''Response type is not JSON'' (ArgResponse r) w)"
    by (simp add: jsonContentTypeValidator_def indexOf_def toErrorResponsePromise_def)
next
  assume "headers_get (headers r) ''content-type'' = Some ''application/vnd.app.v1+JSON''"
  then show "jsonContentTypeValidator lg ge r (Some ''json'') w =
        (Some (Inr \<lparr>response = None, error = Some ge\<rparr>),
         logger_error lg ''Response type is not JSON'' (ArgResponse r) w)"
    by (simp add: jsonContentTypeValidator_def indexOf_def toErrorResponsePromise_def)
next
  show "(fst (jsonContentTypeValidator lg ge r (Some pat) w) = None) =
      (\<exists>ct ps ss. headers_get (headers r) ''content-type'' = Some ct \<and> ct = ps @ pat @ ss)"
    by (auto simp: jsonContentTypeValidator_def indexOf_sublist sublist_def
          simp del: One_nat_def split: option.splits)
qed

theorem jsonContentTypeValidator_substring_witness:
  "jsonContentTypeValidator recording (JObject [(''errorCode'', JString ''INTERNAL_ERROR'')])
     \<lparr>status = 200, headers = [(''content-type'', ''application/vnd.app.v1+json'')],
      body_json = Inr (JNull :: int json)\<rparr>
     (Some ''json'') \<lparr>sink = [], bodyReads = 0\<rparr>
   = (None, \<lparr>sink = [], bodyReads = 0\<rparr>)
 \<and> jsonContentTypeValidator recording (JObject [(''errorCode'', JString ''INTERNAL_ERROR'')])
     \<lparr>status = 200, headers = [(''content-type'', ''text/plain'')],
      body_json = Inr (JNull :: int json)\<rparr>
     (Some ''json'') \<lparr>sink = [], bodyReads = 0\<rparr>
   = (Some (Inr \<lparr>response = None, error = Some (JObject [(''errorCode'', JString ''INTERNAL_ERROR'')])\<rparr>),
      \<lparr>sink = [(''Response type is not JSON'',
                ArgResponse \<lparr>status = 200, headers = [(''content-type'', ''text/plain'')],
                  body_json = Inr JNull\<rparr>)], bodyReads = 0\<rparr>)
 \<and> jsonContentTypeValidator recording (JObject [(''errorCode'', JString ''INTERNAL_ERROR'')])
     \<lparr>status = 200, headers = [(''content-type'', ''application/vnd.app.v1+JSON'')],
      body_json = Inr (JNull :: int json)\<rparr>
     (Some ''json'') \<lparr>sink = [], bodyReads = 0\<rparr>
   = (Some (Inr \<lparr>response = None, error = Some (JObject [(''errorCode'', JString ''INTERNAL_ERROR'')])\<rparr>),
      \<lparr>sink = [(''Response type is not JSON'',
                ArgResponse \<lparr>status = 200, headers = [(''content-type'', ''application/vnd.app.v1+JSON'')],
                  body_json = Inr JNull\<rparr>)], bodyReads = 0\<rparr>)"
  using jsonContentTypeValidator_substring[of
     "\<lparr>status = 200, headers = [(''content-type'', ''application/vnd.app.v1+json'')],
      body_json = Inr (JNull :: int json)\<rparr>" recording
     "JObject [(''errorCode'', JString ''INTERNAL_ERROR'')]" "\<lparr>sink = [], bodyReads = 0\<rparr>"]
   jsonContentTypeValidator_substring[of
     "\<lparr>status = 200, headers = [(''content-type'', ''text/plain'')],
      body_json = Inr (JNull :: int json)\<rparr>" recording
     "JObject [(''errorCode'', JString ''INTERNAL_ERROR'')]" "\<lparr>sink = [], bodyReads = 0\<rparr>"]
   jsonContentTypeValidator_substring[of
     "\<lparr>status = 200, headers = [(''content-type'', ''application/vnd.app.v1+JSON'')],
      body_json = Inr (JNull :: int json)\<rparr>" recording
     "JObject [(''errorCode'', JString ''INTERNAL_ERROR'')]" "\<lparr>sink = [], bodyReads = 0\<rparr>"]
  by (simp add: headers_get_def logger_error_def recording_def)

subsection \<open>The chain of handlers\<close>

text \<open>
  C5. The handlers run in the order of their declaration and the first value a handler
  returns is the final Result:
  \<^item> for any handlers, when the first returns a value, the chain answers it in the world
    that handler left, whatever the later handlers are; when it returns \<^verbatim>\<open>undefined\<close>, the
    chain goes on with the others;
  \<^item> in the client, a value of \<open>validateBasicStatusCodes\<close> is final; else a value of
    \<open>jsonContentTypeValidator\<close> is final and the body has not been read; else the answer is
    the one of \<open>toJsonResponse\<close>, which always gives one;
  \<^item> in particular, when the status validator passes and the header is absent or lacks
    \<^verbatim>\<open>application/json\<close>, the client answers \<^verbatim>\<open>{error: genericError}\<close> and the count of
    body reads is the one the status validator left.
\<close>

theorem defaultJsonFetchClient_short_circuit:
  "(\<forall>h hs v w1. h r w = (Some v, w1) \<longrightarrow> resolve ge (h # hs) r w = (v, w1))
 \<and> (\<forall>h hs w1. h r w = (None, w1) \<longrightarrow> resolve ge (h # hs) r w = resolve ge hs r w1)
 \<and> (\<forall>v w1. validateBasicStatusCodes r w = (Some v, w1) \<longrightarrow>
       defaultJsonFetchClient lg ge validateBasicStatusCodes r w = (v, w1))
 \<and> (\<forall>w1 v w2. validateBasicStatusCodes r w = (None, w1)
        \<and> jsonContentTypeValidator lg ge r None w1 = (Some v, w2) \<longrightarrow>
       defaultJsonFetchClient lg ge validateBasicStatusCodes r w = (v, w2)
        \<and> bodyReads w2 = bodyReads w1)
 \<and> (\<forall>w1 w2. validateBasicStatusCodes r w = (None, w1)
        \<and> jsonContentTypeValidator lg ge r None w1 = (None, w2) \<longrightarrow>
       (\<exists>v w3. toJsonResponse lg ge r None w2 = (Some v, w3)
          \<and> defaultJsonFetchClient lg ge validateBasicStatusCodes r w = (v, w3)))
 \<and> (\<forall>w1. validateBasicStatusCodes r w = (None, w1)
        \<and> (\<forall>ct. headers_get (headers r) ''content-type'' = Some ct
               \<longrightarrow> \<not> sublist ''application/json'' ct) \<longrightarrow>
       defaultJsonFetchClient lg ge validateBasicStatusCodes r w =
         (Inr \<lparr>response = None, error = Some ge\<rparr>,
          logger_error lg ''Response type is not JSON'' (ArgResponse r) w1)
        \<and> bodyReads (snd (defaultJsonFetchClient lg ge validateBasicStatusCodes r w))
            = bodyReads w1)"
proof (intro conjI allI impI)
  fix h :: "('a, 'b) FetchResponseHandler" and hs v w1
  assume "h r w = (Some v, w1)"
  then show "resolve ge (h # hs) r w = (v, w1)" by simp
next
  fix h :: "('a, 'b) FetchResponseHandler" and hs w1
  assume "h r w = (None, w1)"
  then show "resolve ge (h # hs) r w = resolve ge hs r w1" by simp
next
  fix v w1
  assume "validateBasicStatusCodes r w = (Some v, w1)"
  then show "defaultJsonFetchClient lg ge validateBasicStatusCodes r w = (v, w1)"
    by (simp add: defaultJsonFetchClient_def)
next
  fix w1 v w2
  assume a: "validateBasicStatusCodes r w = (None, w1)
        \<and> jsonContentTypeValidator lg ge r None w1 = (Some v, w2)"
  then show "defaultJsonFetchClient lg ge validateBasicStatusCodes r w = (v, w2)"
    by (simp add: defaultJsonFetchClient_def)
  from a show "bodyReads w2 = bodyReads w1"
    by (auto simp: jsonContentTypeValidator_def bodyReads_logger_error
          split: option.splits if_splits)
next
  fix w1 w2
  assume a: "validateBasicStatusCodes r w = (None, w1)
        \<and> jsonContentTypeValidator lg ge r None w1 = (None, w2)"
  obtain res w3 where t: "toJsonResponse lg ge r None w2 = (Some (Inr res), w3)"
    using toJsonResponse_verdict by blast
  with a have "defaultJsonFetchClient lg ge validateBasicStatusCodes r w = (Inr res, w3)"
    by (simp add: defaultJsonFetchClient_def)
  with t show "\<exists>v w3. toJsonResponse lg ge r None w2 = (Some v, w3)
          \<and> defaultJsonFetchClient lg ge validateBasicStatusCodes r w = (v, w3)"
    by blast
next
  fix w1
  assume a: "validateBasicStatusCodes r w = (None, w1)
        \<and> (\<forall>ct. headers_get (headers r) ''content-type'' = Some ct
               \<longrightarrow> \<not> sublist ''application/json'' ct)"
  then have v: "jsonContentTypeValidator lg ge r None w1 =
      (Some (Inr \<lparr>response = None, error = Some ge\<rparr>),
       logger_error lg ''Response type is not JSON'' (ArgResponse r) w1)"
    by (auto simp: jsonContentTypeValidator_def toErrorResponsePromise_def indexOf_sublist
        simp del: One_nat_def split: option.splits)
  with a show c: "defaultJsonFetchClient lg ge validateBasicStatusCodes r w =
         (Inr \<lparr>response = None, error = Some ge\<rparr>,
          logger_error lg ''Response type is not JSON'' (ArgResponse r) w1)"
    by (simp add: defaultJsonFetchClient_def)
  show "bodyReads (snd (defaultJsonFetchClient lg ge validateBasicStatusCodes r w))
            = bodyReads w1"
    by (simp add: c bodyReads_logger_error)
qed

text \<open>
  The scenario of the spec: status 200, header \<^verbatim>\<open>text/html\<close>, with a status validator
  that passes. The body is not read.
\<close>

theorem defaultJsonFetchClient_short_circuit_witness:
  "defaultJsonFetchClient recording (JObject [(''errorCode'', JString ''INTERNAL_ERROR'')])
     (\<lambda>r w. (None, w))
     \<lparr>status = 200, headers = [(''content-type'', ''text/html'')],
      body_json = Inr (JObject [(''id'', JNumber (1::int))])\<rparr>
     \<lparr>sink = [], bodyReads = 0\<rparr>
   = (Inr \<lparr>response = None, error = Some (JObject [(''errorCode'', JString ''INTERNAL_ERROR'')])\<rparr>,
      \<lparr>sink = [(''Response type is not JSON'',
                ArgResponse \<lparr>status = 200, headers = [(''content-type'', ''text/html'')],
                  body_json = Inr (JObject [(''id'', JNumber 1)])\<rparr>)], bodyReads = 0\<rparr>)"
  using defaultJsonFetchClient_short_circuit[of
     "\<lparr>status = 200, headers = [(''content-type'', ''text/html'')],
      body_json = Inr (JObject [(''id'', JNumber (1::int))])\<rparr>"
     "\<lparr>sink = [], bodyReads = 0\<rparr>"
     "JObject [(''errorCode'', JString ''INTERNAL_ERROR'')]"
     "\<lambda>r w. (None, w)" recording]
  by (simp add: headers_get_def sublist_code logger_error_def recording_def)

subsection \<open>Results\<close>

text \<open>
  C6. Every Result of \<open>jsonContentTypeValidator\<close>, of \<open>defaultJsonErrorMapper\<close> and of
  \<open>toJsonResponse\<close> under the default mapper has exactly one of its two fields set. (A
  field set to \<^verbatim>\<open>null\<close>, as in \<^verbatim>\<open>{response: null}\<close> for the body \<^verbatim>\<open>null\<close>, is set.) Under a
  mapper of the caller's, \<open>toJsonResponse\<close> keeps the invariant when the mapper's Results
  have it.
\<close>

theorem results_exactly_one:
  "(\<forall>res w'. jsonContentTypeValidator lg ge r ct w = (Some (Inr res), w') \<longrightarrow> exactly_one res)
 \<and> (\<forall>res w'. defaultJsonErrorMapper lg ge r j w = (Inr res, w') \<longrightarrow> exactly_one res)
 \<and> (\<forall>res w'. toJsonResponse lg ge r None w = (Some (Inr res), w') \<longrightarrow> exactly_one res)
 \<and> (\<forall>m res w'. (\<forall>j' w1 res1 w2. m r j' w1 = (Inr res1, w2) \<longrightarrow> exactly_one res1)
        \<and> toJsonResponse lg ge r (Some m) w = (Some (Inr res), w') \<longrightarrow> exactly_one res)"
proof (intro conjI allI impI)
  fix res w'
  assume "jsonContentTypeValidator lg ge r ct w = (Some (Inr res), w')"
  then show "exactly_one res"
    by (auto simp: jsonContentTypeValidator_def toErrorResponsePromise_def exactly_one_def
          split: option.splits if_splits)
next
  fix res w'
  assume "defaultJsonErrorMapper lg ge r j w = (Inr res, w')"
  then show "exactly_one res"
    by (auto simp: defaultJsonErrorMapper_def exactly_one_def split: sum.splits option.splits)
next
  fix res w'
  assume "toJsonResponse lg ge r None w = (Some (Inr res), w')"
  then show "exactly_one res"
    by (auto simp: toJson_defs defaultJsonErrorMapper_def exactly_one_def
          split: sum.splits option.splits if_splits prod.splits)
next
  fix m :: "('a, 'b) JsonErrorMapper" and res w'
  assume a: "(\<forall>j' w1 res1 w2. m r j' w1 = (Inr res1, w2) \<longrightarrow> exactly_one res1)
        \<and> toJsonResponse lg ge r (Some m) w = (Some (Inr res), w')"
  then have m: "\<And>j' w1 res1 w2. m r j' w1 = (Inr res1, w2) \<Longrightarrow> exactly_one res1"
    by blast
  from a have t: "toJsonResponse lg ge r (Some m) w = (Some (Inr res), w')" by blast
  show "exactly_one res"
  proof (cases "body_json r")
    case (Inl e)
    with t show ?thesis by (auto simp: toJson_defs exactly_one_def)
  next
    case (Inr j')
    show ?thesis
    proof (cases "ok r")
      case True
      with Inr t show ?thesis by (auto simp: toJson_defs exactly_one_def)
    next
      case False
      obtain out w2 where mm: "m r j' (w\<lparr>bodyReads := Suc (bodyReads w)\<rparr>) = (out, w2)"
        by (cases "m r j' (w\<lparr>bodyReads := Suc (bodyReads w)\<rparr>)")
      show ?thesis
      proof (cases out)
        case (Inl e)
        with Inr False t mm show ?thesis by (auto simp: toJson_defs exactly_one_def)
      next
        case (Inr res1)
        with mm m have "exactly_one res1" by blast
        moreover from \<open>body_json r = Inr j'\<close> False t mm Inr have "res = res1"
          by (auto simp: toJson_defs)
        ultimately show ?thesis by simp
      qed
    qed
  qed
qed

text \<open>
  At the Results of the validator on the header \<^verbatim>\<open>text/html\<close>, of the default mapper
  on \<^verbatim>\<open>{"errorCode":"NOT_FOUND"}\<close> and of \<open>toJsonResponse\<close> on status 200 with the body
  \<^verbatim>\<open>{"id":1}\<close>.
\<close>

theorem results_exactly_one_witness:
  "fst (jsonContentTypeValidator recording
         (JObject [(''errorCode'', JString ''INTERNAL_ERROR'')])
         \<lparr>status = 200, headers = [(''content-type'', ''text/html'')],
          body_json = Inr (JObject [(''id'', JNumber (1::int))])\<rparr>
         None \<lparr>sink = [], bodyReads = 0\<rparr>)
    = Some (Inr \<lparr>response = None,
                 error = Some (JObject [(''errorCode'', JString ''INTERNAL_ERROR'')])\<rparr>)
 \<and> exactly_one \<lparr>response = None,
      error = Some (JObject [(''errorCode'', JString ''INTERNAL_ERROR'')] :: int json)\<rparr>
 \<and> exactly_one \<lparr>response = None,
      error = Some (JObject [(''errorCode'', JString ''NOT_FOUND'')] :: int json)\<rparr>
 \<and> exactly_one \<lparr>response = Some (JObject [(''id'', JNumber (1::int))]), error = None\<rparr>"
proof -
  let ?ge = "JObject [(''errorCode'', JString ''INTERNAL_ERROR'')] :: int json"
  let ?w = "\<lparr>sink = [], bodyReads = 0\<rparr> :: (string \<times> int log_arg) list world"
  let ?r1 = "\<lparr>status = 200, headers = [(''content-type'', ''text/html'')],
      body_json = Inr (JObject [(''id'', JNumber (1::int))])\<rparr>"
  let ?r2 = "\<lparr>status = 404, headers = [(''content-type'', ''application/json'')],
      body_json = Inr (JObject [(''errorCode'', JString ''NOT_FOUND'')] :: int json)\<rparr>"
  note th = results_exactly_one
  have v: "jsonContentTypeValidator recording ?ge ?r1 None ?w =
      (Some (Inr \<lparr>response = None, error = Some ?ge\<rparr>),
       logger_error recording ''Response type is not JSON'' (ArgResponse ?r1) ?w)"
    by (simp add: jsonContentTypeValidator_def toErrorResponsePromise_def headers_get_def
          indexOf_def)
  have m: "defaultJsonErrorMapper recording ?ge ?r2
             (JObject [(''errorCode'', JString ''NOT_FOUND'')]) ?w =
      (Inr \<lparr>response = None, error = Some (JObject [(''errorCode'', JString ''NOT_FOUND'')])\<rparr>,
       ?w)"
    by (simp add: defaultJsonErrorMapper_def)
  have t: "toJsonResponse recording ?ge ?r1 None ?w =
      (Some (Inr \<lparr>response = Some (JObject [(''id'', JNumber 1)]), error = None\<rparr>),
       ?w\<lparr>bodyReads := Suc (bodyReads ?w)\<rparr>)"
    by (simp add: toJson_defs ok_def)
  from v have 0: "fst (jsonContentTypeValidator recording ?ge ?r1 None ?w)
      = Some (Inr \<lparr>response = None, error = Some ?ge\<rparr>)"
    by simp
  from th[of recording ?ge ?r1 None ?w] v
  have 1: "exactly_one \<lparr>response = None, error = Some ?ge\<rparr>" by blast
  from th[of recording ?ge ?r2 None ?w "JObject [(''errorCode'', JString ''NOT_FOUND'')]"] m
  have 2: "exactly_one \<lparr>response = None,
      error = Some (JObject [(''errorCode'', JString ''NOT_FOUND'')] :: int json)\<rparr>"
    by blast
  from th[of recording ?ge ?r1 None ?w] t
  have 3: "exactly_one \<lparr>response = Some (JObject [(''id'', JNumber (1::int))]), error = None\<rparr>"
    by blast
  from 0 1 2 3 show ?thesis by blast
qed

text \<open>
  C8. The expected failures come back as Results. \<open>jsonContentTypeValidator\<close> returns
  \<^verbatim>\<open>undefined\<close> or a fulfilled promise, never a rejected one; the promise of
  \<open>toJsonResponse\<close> is always fulfilled, with any mapper; a body that cannot be read or
  parsed, a mapper that throws, and the default mapper on the body \<^verbatim>\<open>null\<close> all end in
  \<^verbatim>\<open>{error: genericError}\<close>. (The logger is taken not to throw.)
\<close>

theorem handlers_return_results:
  "(\<exists>v w'. jsonContentTypeValidator lg ge r ct w = (v, w') \<and> (\<forall>e. v \<noteq> Some (Inl e)))
 \<and> (\<exists>res w'. toJsonResponse lg ge r arg w = (Some (Inr res), w'))
 \<and> toJsonResponse lg ge (r\<lparr>body_json := Inl e\<rparr>) arg w =
     (Some (Inr \<lparr>response = None, error = Some ge\<rparr>),
      logger_error lg ''Cannot parse JSON'' (ArgError e) (w\<lparr>bodyReads := Suc (bodyReads w)\<rparr>))
 \<and> fst (toJsonResponse lg ge (r\<lparr>status := 500, body_json := Inr j\<rparr>)
          (Some (\<lambda>r j w. (Inl x, w))) w) =
     Some (Inr \<lparr>response = None, error = Some ge\<rparr>)
 \<and> fst (toJsonResponse lg ge (r\<lparr>status := 500, body_json := Inr JNull\<rparr>) None w) =
     Some (Inr \<lparr>response = None, error = Some ge\<rparr>)"
proof (intro conjI)
  show "\<exists>v w'. jsonContentTypeValidator lg ge r ct w = (v, w') \<and> (\<forall>e. v \<noteq> Some (Inl e))"
    by (auto simp: jsonContentTypeValidator_def toErrorResponsePromise_def Let_def
          split: option.splits)
next
  show "\<exists>res w'. toJsonResponse lg ge r arg w = (Some (Inr res), w')"
    by (rule toJsonResponse_verdict)
next
  show "toJsonResponse lg ge (r\<lparr>body_json := Inl e\<rparr>) arg w =
     (Some (Inr \<lparr>response = None, error = Some ge\<rparr>),
      logger_error lg ''Cannot parse JSON'' (ArgError e) (w\<lparr>bodyReads := Suc (bodyReads w)\<rparr>))"
    by (simp add: toJson_defs)
next
  show "fst (toJsonResponse lg ge (r\<lparr>status := 500, body_json := Inr j\<rparr>)
          (Some (\<lambda>r j w. (Inl x, w))) w) =
     Some (Inr \<lparr>response = None, error = Some ge\<rparr>)"
    by (simp add: toJson_defs ok_def)
next
  show "fst (toJsonResponse lg ge (r\<lparr>status := 500, body_json := Inr JNull\<rparr>) None w) =
     Some (Inr \<lparr>response = None, error = Some ge\<rparr>)"
    by (simp add: toJson_defs ok_def defaultJsonErrorMapper_def)
qed

text \<open>
  C9. Logging does not change a result. With any logger, each of the three functions
  returns what it returns with the logger that does nothing, under which the function
  leaves the sink as it was: that run is the code with the \<^verbatim>\<open>logger.error\<close> calls removed.
  The count of body reads is the same in both runs.
\<close>

theorem logging_does_not_change_results:
  "fst (jsonContentTypeValidator lg ge r ct w) = fst (jsonContentTypeValidator silent ge r ct w)
 \<and> snd (jsonContentTypeValidator silent ge r ct w) = w
 \<and> fst (defaultJsonErrorMapper lg ge r j w) = fst (defaultJsonErrorMapper silent ge r j w)
 \<and> snd (defaultJsonErrorMapper silent ge r j w) = w
 \<and> fst (toJsonResponse lg ge r (Some m) w) = fst (toJsonResponse silent ge r (Some m) w)
 \<and> fst (toJsonResponse lg ge r None w) = fst (toJsonResponse silent ge r None w)
 \<and> bodyReads (snd (toJsonResponse lg ge r None w))
     = bodyReads (snd (toJsonResponse silent ge r None w))
 \<and> sink (snd (toJsonResponse silent ge r None w)) = sink w"
proof (intro conjI)
  show "fst (jsonContentTypeValidator lg ge r ct w) = fst (jsonContentTypeValidator silent ge r ct w)"
    by (simp add: jsonContentTypeValidator_def Let_def split: option.splits)
  show "snd (jsonContentTypeValidator silent ge r ct w) = w"
    by (simp add: jsonContentTypeValidator_def Let_def logger_error_silent split: option.splits)
  show "fst (defaultJsonErrorMapper lg ge r j w) = fst (defaultJsonErrorMapper silent ge r j w)"
    by (simp add: defaultJsonErrorMapper_def split: sum.splits option.splits)
  show "snd (defaultJsonErrorMapper silent ge r j w) = w"
    by (simp add: defaultJsonErrorMapper_def logger_error_silent split: sum.splits option.splits)
  show "fst (toJsonResponse lg ge r (Some m) w) = fst (toJsonResponse silent ge r (Some m) w)"
    by (simp add: toJson_defs split: sum.splits prod.splits)
  show "fst (toJsonResponse lg ge r None w) = fst (toJsonResponse silent ge r None w)"
    by (simp add: toJson_defs defaultJsonErrorMapper_def split: sum.splits prod.splits option.splits)
  show "bodyReads (snd (toJsonResponse lg ge r None w))
     = bodyReads (snd (toJsonResponse silent ge r None w))"
    by (simp add: toJson_defs defaultJsonErrorMapper_def bodyReads_logger_error
          split: sum.splits prod.splits option.splits)
  show "sink (snd (toJsonResponse silent ge r None w)) = sink w"
    by (simp add: toJson_defs defaultJsonErrorMapper_def logger_error_silent
          split: sum.splits prod.splits option.splits)
qed

text \<open>
  C10. The default mapper tests \<^verbatim>\<open>typeof json.errorCode !== 'undefined'\<close>, not the truth of
  the value: for an object with an \<^verbatim>\<open>errorCode\<close> property of any value \<open>c\<close>, also
  \<^verbatim>\<open>null\<close>, \<^verbatim>\<open>0\<close>, \<^verbatim>\<open>false\<close> or the empty string, it returns \<^verbatim>\<open>{error: <the object>}\<close> and
  logs nothing.
\<close>

theorem defaultJsonErrorMapper_defined_errorCode:
  assumes "map_of ps ''errorCode'' = Some c"
  shows "defaultJsonErrorMapper lg ge r (JObject ps) w =
           (Inr \<lparr>response = None, error = Some (JObject ps)\<rparr>, w)"
  using assms by (simp add: defaultJsonErrorMapper_def)

text \<open>At the values \<^verbatim>\<open>null\<close>, \<^verbatim>\<open>0\<close>, \<^verbatim>\<open>false\<close> and the empty string.\<close>

theorem defaultJsonErrorMapper_defined_errorCode_witness:
  "defaultJsonErrorMapper recording (JObject [(''errorCode'', JString ''INTERNAL_ERROR'')])
       \<lparr>status = 400, headers = [], body_json = Inr (JObject [(''errorCode'', JNull)])\<rparr>
       (JObject [(''errorCode'', JNull :: int json)]) \<lparr>sink = [], bodyReads = 1\<rparr>
     = (Inr \<lparr>response = None, error = Some (JObject [(''errorCode'', JNull)])\<rparr>,
        \<lparr>sink = [], bodyReads = 1\<rparr>)
 \<and> defaultJsonErrorMapper recording (JObject [(''errorCode'', JString ''INTERNAL_ERROR'')])
       \<lparr>status = 400, headers = [], body_json = Inr (JObject [(''errorCode'', JNumber 0)])\<rparr>
       (JObject [(''errorCode'', JNumber (0::int))]) \<lparr>sink = [], bodyReads = 1\<rparr>
     = (Inr \<lparr>response = None, error = Some (JObject [(''errorCode'', JNumber 0)])\<rparr>,
        \<lparr>sink = [], bodyReads = 1\<rparr>)
 \<and> defaultJsonErrorMapper recording (JObject [(''errorCode'', JString ''INTERNAL_ERROR'')])
       \<lparr>status = 400, headers = [], body_json = Inr (JObject [(''errorCode'', JBool False)])\<rparr>
       (JObject [(''errorCode'', JBool False :: int json)]) \<lparr>sink = [], bodyReads = 1\<rparr>
     = (Inr \<lparr>response = None, error = Some (JObject [(''errorCode'', JBool False)])\<rparr>,
        \<lparr>sink = [], bodyReads = 1\<rparr>)
 \<and> defaultJsonErrorMapper recording (JObject [(''errorCode'', JString ''INTERNAL_ERROR'')])
       \<lparr>status = 400, headers = [], body_json = Inr (JObject [(''errorCode'', JString [])])\<rparr>
       (JObject [(''errorCode'', JString [] :: int json)]) \<lparr>sink = [], bodyReads = 1\<rparr>
     = (Inr \<lparr>response = None, error = Some (JObject [(''errorCode'', JString [])])\<rparr>,
        \<lparr>sink = [], bodyReads = 1\<rparr>)"
proof -
  note th = defaultJsonErrorMapper_defined_errorCode
  have m: "map_of [(''errorCode'', c)] ''errorCode'' = Some c" for c :: "int json"
    by simp
  show ?thesis
    by (intro conjI) (rule th[OF m])+
qed

end
